theory Spec2Isabelle
  imports Complex_Main
begin

section \<open>Zodson: conversion between Zod schemas and MongoDB BSON schemas\<close>

text \<open>
  The development follows \<^verbatim>\<open>src/types.ts\<close>, which holds the type declarations of the
  descriptor tree (\<^verbatim>\<open>TMongoSchema\<close>) and three copies of the converter.  The newest copy
  (the functions \<^verbatim>\<open>zodToBsonSchema\<close>, \<^verbatim>\<open>createMongoValidator\<close> and
  \<^verbatim>\<open>mongoSchemaToZod\<close> at the end of the file) is the one that widens nullable nodes
  and numbers into \<^verbatim>\<open>oneOf\<close> alternatives; it is modelled in full.  The older copy
  (\<^verbatim>\<open>zodToBson\<close>) picks a single numeric kind; it is modelled as well, because the two
  are compared.
\<close>

subsection \<open>JavaScript values\<close>

text \<open>
  A JavaScript \<^verbatim>\<open>number\<close> that the converter only copies or compares with a count is
  a real number here.  Primitive values are compared by value; an object or an array is
  a reference into a heap and is compared by its address, which is what the
  \<^verbatim>\<open>SameValueZero\<close> comparison of a JavaScript \<^verbatim>\<open>Set\<close> does.  Hence equality of
  \<open>jsval\<close> in HOL is that comparison.
\<close>

type_synonym jsnumber = real

datatype jsval =
    JUndefined
  | JNull
  | JBool bool
  | JNumber jsnumber
  | JString string
  | JRef nat

datatype jsobj =
    JObject "(string \<times> jsval) list"
  | JArray "jsval list"

type_synonym heap = "nat \<Rightarrow> jsobj option"

text \<open>
  An exception is a value: \<^verbatim>\<open>throw new Error(msg)\<close> is \<open>Error msg\<close>; a
  \<^verbatim>\<open>TypeError\<close> raised by the run-time system (reading the entries of
  \<^verbatim>\<open>undefined\<close>) is \<open>TypeError\<close>, without its message, which is the engine's.
\<close>

datatype error = Error string | TypeError

subsection \<open>The descriptor tree (\<^verbatim>\<open>TMongoSchema\<close>)\<close>

text \<open>
  At run time a descriptor is a plain object whose keys are all optional; the converter
  tests \<^verbatim>\<open>'oneOf' in mongoSchema\<close> first and the string \<^verbatim>\<open>bsonType\<close> afterwards.
  The scalar keys are a record in which an absent key is \<open>None\<close>; the keys that hold
  descriptors are the further arguments of the constructor \<open>Node\<close>, in the order
  \<^verbatim>\<open>items\<close>, \<^verbatim>\<open>properties\<close>, \<^verbatim>\<open>additionalProperties\<close>.
\<close>

record attrs =
  bsonType :: "string option"
  enum_values :: "string list option"
  minItems :: "jsnumber option"
  maxItems :: "jsnumber option"
  uniqueItems :: "bool option"
  required :: "string list option"
  minProperties :: "jsnumber option"
  maxProperties :: "jsnumber option"
  minLength :: "jsnumber option"
  maxLength :: "jsnumber option"
  pattern :: "string option"
  minimum :: "jsnumber option"
  maximum :: "jsnumber option"
  multipleOf :: "jsnumber option"

datatype 'a items_of = Single 'a | Multiple "'a list"

datatype 'a additional = Flag bool | Schema 'a

datatype mongo =
    OneOf "mongo list"
  | Node attrs
         "mongo items_of option"
         "(string \<times> mongo) list option"
         "mongo additional option"

definition noAttrs :: attrs where
  "noAttrs = \<lparr> bsonType = None, enum_values = None, minItems = None, maxItems = None,
      uniqueItems = None, required = None, minProperties = None, maxProperties = None,
      minLength = None, maxLength = None, pattern = None, minimum = None, maximum = None,
      multipleOf = None \<rparr>"

text \<open>\<open>kind k\<close> is the object literal \<^verbatim>\<open>{ bsonType: k }\<close>; \<open>emptySchema\<close> is \<^verbatim>\<open>{}\<close>.\<close>

definition kind :: "string \<Rightarrow> attrs" where
  "kind k = noAttrs \<lparr> bsonType := Some k \<rparr>"

definition leaf :: "attrs \<Rightarrow> mongo" where
  "leaf a = Node a None None None"

definition emptySchema :: mongo where
  "emptySchema = leaf noAttrs"

subsection \<open>The schema tree (Zod)\<close>

text \<open>
  A Zod schema is an instance of one class of the library; the converter reads its class
  (\<^verbatim>\<open>instanceof\<close>) and its \<^verbatim>\<open>_def\<close>.  A string or number schema holds the list
  \<^verbatim>\<open>_def.checks\<close> in the order in which the checks were added.  \<open>ZodOther n\<close> is an
  instance of any class the converter does not test for, \<open>n\<close> being
  \<^verbatim>\<open>constructor.name\<close>.  \<open>ZodEffects\<close> is what \<^verbatim>\<open>refine\<close>, \<^verbatim>\<open>superRefine\<close> and
  \<^verbatim>\<open>transform\<close> return; the callback is represented by a tag holding the variables it
  captures.
\<close>

datatype stringCheck =
    SMin jsnumber
  | SMax jsnumber
  | SRegex string
  | SEmail
  | SUuid
  | SOtherCheck string

datatype numberCheck =
    NMin jsnumber bool
  | NMax jsnumber bool
  | NInt
  | NMultipleOf jsnumber
  | NOtherCheck string

datatype unknownKeys = Strict | Passthrough | Strip

datatype effect =
    UniqueItemsRefinement
  | PropertyCountRefinement "jsnumber option" "jsnumber option"
  | Base64Transform

datatype zod =
    ZodOptional zod
  | ZodNullable zod
  | ZodUndefined
  | ZodUnion "zod list"
  | ZodObject "(string \<times> zod) list" unknownKeys
  | ZodRecord zod
  | ZodArray zod "jsnumber option" "jsnumber option"
  | ZodString "stringCheck list"
  | ZodNumber "numberCheck list"
  | ZodBoolean
  | ZodDate
  | ZodEnum "string list"
  | ZodNativeEnum "(string \<times> string) list"
  | ZodAny
  | ZodEffects zod effect
  | ZodOther string

definition objectIdPattern :: string where
  "objectIdPattern = ''^[0-9a-fA-F]{24}$''"

text \<open>\<^verbatim>\<open>zodObjectId = z.string().regex(new RegExp(objectIdPattern))\<close>; a regular expression
  is represented by its \<^verbatim>\<open>source\<close>.\<close>

definition zodObjectId :: zod where
  "zodObjectId = ZodString [SRegex objectIdPattern]"

definition emailPattern :: string where
  "emailPattern = ''^[a-zA-Z0-9._%+-]+@[a-zA-Z0-9.-]+'' @ [CHR 0x5C] @ ''.[a-zA-Z]{2,}$''"

subsection \<open>\<^verbatim>\<open>zodToBsonSchema\<close>: from a schema to a descriptor\<close>

text \<open>\<open>className z\<close> is \<^verbatim>\<open>zodSchema.constructor.name\<close>, which the final
  \<^verbatim>\<open>throw\<close> puts into its message.\<close>

fun className :: "zod \<Rightarrow> string" where
  "className (ZodOptional inner) = ''ZodOptional''"
| "className (ZodNullable inner) = ''ZodNullable''"
| "className ZodUndefined = ''ZodUndefined''"
| "className (ZodUnion options) = ''ZodUnion''"
| "className (ZodObject shape uk) = ''ZodObject''"
| "className (ZodRecord valueType) = ''ZodRecord''"
| "className (ZodArray element minLen maxLen) = ''ZodArray''"
| "className (ZodString checks) = ''ZodString''"
| "className (ZodNumber checks) = ''ZodNumber''"
| "className ZodBoolean = ''ZodBoolean''"
| "className ZodDate = ''ZodDate''"
| "className (ZodEnum values) = ''ZodEnum''"
| "className (ZodNativeEnum values) = ''ZodNativeEnum''"
| "className ZodAny = ''ZodAny''"
| "className (ZodEffects inner eff) = ''ZodEffects''"
| "className (ZodOther name) = name"

text \<open>\<open>isOptional v\<close> is the test \<^verbatim>\<open>value instanceof z.ZodOptional\<close>.\<close>

fun isOptional :: "zod \<Rightarrow> bool" where
  "isOptional (ZodOptional inner) = True"
| "isOptional other = False"

text \<open>
  \<open>setProperty ps k v\<close> is the assignment \<^verbatim>\<open>ps[k] = v\<close> on an object that was created
  by the literal \<^verbatim>\<open>{}\<close> and whose entries, in enumeration order, are \<open>ps\<close>: an existing
  key keeps its place, a new key goes last.  The key \<^verbatim>\<open>__proto__\<close> is the exception: the
  assignment of an object to it replaces the prototype and adds no entry, and every value
  assigned by the converters is an object.
  (JavaScript enumerates keys that are array indices before all others; a shape is taken
  in the order in which \<^verbatim>\<open>Object.entries\<close> lists it, so the order is kept.)
\<close>

fun setProperty :: "(string \<times> 'a) list \<Rightarrow> string \<Rightarrow> 'a \<Rightarrow> (string \<times> 'a) list" where
  "setProperty [] k v = (if k = ''__proto__'' then [] else [(k, v)])"
| "setProperty ((k', v') # ps) k v =
     (if k = ''__proto__'' then (k', v') # ps
      else if k' = k then (k, v) # ps
      else (k', v') # setProperty ps k v)"

text \<open>One round of the \<^verbatim>\<open>switch (check.kind)\<close> over the checks of a string.\<close>

fun applyStringCheck :: "attrs \<Rightarrow> stringCheck \<Rightarrow> attrs" where
  "applyStringCheck stringSchema (SMin v) = stringSchema \<lparr> minLength := Some v \<rparr>"
| "applyStringCheck stringSchema (SMax v) = stringSchema \<lparr> maxLength := Some v \<rparr>"
| "applyStringCheck stringSchema (SRegex source) = stringSchema \<lparr> pattern := Some source \<rparr>"
| "applyStringCheck stringSchema SEmail = stringSchema \<lparr> pattern := Some emailPattern \<rparr>"
| "applyStringCheck stringSchema other = stringSchema"

text \<open>
  One round of the \<^verbatim>\<open>switch (check.kind)\<close> over the checks of a number, in the newest
  copy: the state is the list \<^verbatim>\<open>numberSchema.oneOf\<close>.  The cases are \<^verbatim>\<open>min\<close>,
  \<^verbatim>\<open>max\<close> and \<^verbatim>\<open>int\<close>; there is no default.
\<close>

fun applyNumberCheck :: "attrs list \<Rightarrow> numberCheck \<Rightarrow> attrs list" where
  "applyNumberCheck oneOf (NMin v inclusive) = map (\<lambda>type. type \<lparr> minimum := Some v \<rparr>) oneOf"
| "applyNumberCheck oneOf (NMax v inclusive) = map (\<lambda>type. type \<lparr> maximum := Some v \<rparr>) oneOf"
| "applyNumberCheck oneOf NInt =
     filter (\<lambda>type. bsonType type = Some ''int'' \<or> bsonType type = Some ''long'') oneOf"
| "applyNumberCheck oneOf other = oneOf"

definition numbers :: "attrs list" where
  "numbers = [kind ''int'', kind ''long'', kind ''double'', kind ''decimal'']"

text \<open>
  The converter.  \<open>zodToBsonSchema_options\<close> is \<^verbatim>\<open>options.map(zodToBsonSchema)\<close> and
  \<open>zodToBsonSchema_shape\<close> is the loop over \<^verbatim>\<open>Object.entries(shape)\<close>, whose state is
  the pair of \<^verbatim>\<open>properties\<close> and \<^verbatim>\<open>required\<close>; both stop at the first child that
  throws.
\<close>

fun zodToBsonSchema :: "zod \<Rightarrow> error + mongo"
  and zodToBsonSchema_options :: "zod list \<Rightarrow> error + mongo list"
  and zodToBsonSchema_shape ::
    "(string \<times> zod) list \<Rightarrow> (string \<times> mongo) list \<Rightarrow> string list
      \<Rightarrow> error + ((string \<times> mongo) list \<times> string list)"
where
  "zodToBsonSchema (ZodOptional inner) = zodToBsonSchema inner"
| "zodToBsonSchema (ZodNullable inner) =
     (case zodToBsonSchema inner of
        Inl e \<Rightarrow> Inl e
      | Inr innerSchema \<Rightarrow> Inr (OneOf [leaf (kind ''null''), innerSchema]))"
| "zodToBsonSchema ZodUndefined = Inr emptySchema"
| "zodToBsonSchema (ZodUnion options) =
     (case zodToBsonSchema_options options of
        Inl e \<Rightarrow> Inl e
      | Inr oneOf \<Rightarrow> Inr (OneOf oneOf))"
| "zodToBsonSchema (ZodObject shape uk) =
     (case zodToBsonSchema_shape shape [] [] of
        Inl e \<Rightarrow> Inl e
      | Inr (props, req) \<Rightarrow>
          Inr (Node ((kind ''object'') \<lparr> required := (if req \<noteq> [] then Some req else None) \<rparr>)
                 None (Some props) None))"
| "zodToBsonSchema (ZodRecord valueType) =
     (case zodToBsonSchema valueType of
        Inl e \<Rightarrow> Inl e
      | Inr valueSchema \<Rightarrow> Inr (Node (kind ''object'') None None (Some (Schema valueSchema))))"
| "zodToBsonSchema (ZodArray element minLen maxLen) =
     (case zodToBsonSchema element of
        Inl e \<Rightarrow> Inl e
      | Inr itemSchema \<Rightarrow>
          Inr (Node ((kind ''array'') \<lparr> minItems := minLen, maxItems := maxLen \<rparr>)
                 (Some (Single itemSchema)) None None))"
| "zodToBsonSchema (ZodString checks) =
     (if SRegex objectIdPattern \<in> set checks then Inr (leaf (kind ''objectId''))
      else Inr (leaf (foldl applyStringCheck (kind ''string'') checks)))"
| "zodToBsonSchema (ZodNumber checks) =
     Inr (OneOf (map leaf (foldl applyNumberCheck numbers checks)))"
| "zodToBsonSchema ZodBoolean = Inr (leaf (kind ''bool''))"
| "zodToBsonSchema ZodDate = Inr (leaf (kind ''date''))"
| "zodToBsonSchema (ZodEnum values) =
     Inr (leaf ((kind ''string'') \<lparr> enum_values := Some values \<rparr>))"
| "zodToBsonSchema (ZodNativeEnum values) =
     Inr (leaf ((kind ''string'') \<lparr> enum_values := Some (map snd values) \<rparr>))"
| "zodToBsonSchema ZodAny = Inr emptySchema"
| "zodToBsonSchema other = Inl (Error (''Unsupported Zod type: '' @ className other))"
| "zodToBsonSchema_options [] = Inr []"
| "zodToBsonSchema_options (option # options) =
     (case zodToBsonSchema option of
        Inl e \<Rightarrow> Inl e
      | Inr d \<Rightarrow>
          (case zodToBsonSchema_options options of
             Inl e \<Rightarrow> Inl e
           | Inr ds \<Rightarrow> Inr (d # ds)))"
| "zodToBsonSchema_shape [] props req = Inr (props, req)"
| "zodToBsonSchema_shape ((key, v) # entries) props req =
     (case zodToBsonSchema v of
        Inl e \<Rightarrow> Inl e
      | Inr d \<Rightarrow>
          zodToBsonSchema_shape entries (setProperty props key d)
            (if \<not> isOptional v then req @ [key] else req))"

text \<open>\<^verbatim>\<open>createMongoValidator\<close> returns an object with the one key \<^verbatim>\<open>$jsonSchema\<close>; an
  object is the list of its entries.\<close>

definition createMongoValidator :: "zod \<Rightarrow> error + (string \<times> mongo) list" where
  "createMongoValidator zodSchema =
     (case zodToBsonSchema zodSchema of
        Inl e \<Rightarrow> Inl e
      | Inr d \<Rightarrow> Inr [(''$jsonSchema'', d)])"

subsection \<open>\<^verbatim>\<open>mongoSchemaToZod\<close>: from a descriptor to a schema\<close>

text \<open>
  \<open>addCheck mk x\<close> is the step \<^verbatim>\<open>if (x !== undefined) schema = schema.check(x)\<close>, which
  appends one check to \<^verbatim>\<open>_def.checks\<close>.  \<open>arrayIncludes xs x\<close> is \<^verbatim>\<open>xs.includes(x)\<close>, where
  \<open>x\<close> may be \<^verbatim>\<open>undefined\<close>.
\<close>

definition addCheck :: "('a \<Rightarrow> 'c) \<Rightarrow> 'a option \<Rightarrow> 'c list" where
  "addCheck mk x = (case x of None \<Rightarrow> [] | Some v \<Rightarrow> [mk v])"

definition arrayIncludes :: "string list \<Rightarrow> string option \<Rightarrow> bool" where
  "arrayIncludes xs x = (case x of None \<Rightarrow> False | Some k \<Rightarrow> k \<in> set xs)"

text \<open>The text that a template literal makes of \<^verbatim>\<open>mongoSchema.bsonType\<close>.\<close>

definition showBsonType :: "string option \<Rightarrow> string" where
  "showBsonType x = (case x of None \<Rightarrow> ''undefined'' | Some k \<Rightarrow> k)"

text \<open>
  The converter.  \<open>mongoSchemaToZod_map\<close> is \<^verbatim>\<open>xs.map(mongoSchemaToZod)\<close>,
  \<open>mongoSchemaToZod_items\<close> computes \<^verbatim>\<open>elementSchema\<close> from \<^verbatim>\<open>mongoSchema.items\<close>, and
  \<open>mongoSchemaToZod_entries\<close> is the loop over \<^verbatim>\<open>Object.entries(mongoSchema.properties)\<close>
  whose state is \<^verbatim>\<open>shape\<close>.  Absent \<^verbatim>\<open>items\<close> make the recursive call test
  \<^verbatim>\<open>'oneOf' in undefined\<close>, and absent \<^verbatim>\<open>properties\<close> make it call
  \<^verbatim>\<open>Object.entries(undefined)\<close>; both throw a \<^verbatim>\<open>TypeError\<close>.

  Not modelled: the string branch calls \<^verbatim>\<open>new RegExp(mongoSchema.pattern)\<close>, which throws a
  \<^verbatim>\<open>SyntaxError\<close> on a text that is no regular expression (before \<^verbatim>\<open>enum\<close> is read) and
  whose \<^verbatim>\<open>source\<close> is the text with \<^verbatim>\<open>/\<close> and line ends escaped.  A \<^verbatim>\<open>pattern\<close> is taken
  to be a regular expression whose \<^verbatim>\<open>source\<close> is the text itself, as the identifier
  pattern and the email pattern are.
\<close>

function (sequential) mongoSchemaToZod :: "mongo \<Rightarrow> error + zod"
  and mongoSchemaToZod_map :: "mongo list \<Rightarrow> error + zod list"
  and mongoSchemaToZod_items :: "mongo items_of option \<Rightarrow> error + zod"
  and mongoSchemaToZod_entries ::
    "string list \<Rightarrow> (string \<times> mongo) list \<Rightarrow> (string \<times> zod) list
      \<Rightarrow> error + (string \<times> zod) list"
where
  "mongoSchemaToZod (OneOf oneOf) =
     (case mongoSchemaToZod_map oneOf of
        Inl e \<Rightarrow> Inl e
      | Inr schemas \<Rightarrow> Inr (ZodUnion schemas))"
| "mongoSchemaToZod (Node a its props addl) =
     (if bsonType a = Some ''array'' then
        (case mongoSchemaToZod_items its of
           Inl e \<Rightarrow> Inl e
         | Inr elementSchema \<Rightarrow>
             (let arraySchema = ZodArray elementSchema (minItems a) (maxItems a)
              in if uniqueItems a = Some True
                 then Inr (ZodEffects arraySchema UniqueItemsRefinement)
                 else Inr arraySchema))
      else if bsonType a = Some ''object'' then
        (case props of
           None \<Rightarrow> Inl TypeError
         | Some entries \<Rightarrow>
             (case mongoSchemaToZod_entries
                     (case required a of None \<Rightarrow> [] | Some r \<Rightarrow> r) entries [] of
                Inl e \<Rightarrow> Inl e
              | Inr shape \<Rightarrow>
                  (let baseSchema =
                         (if addl = Some (Flag False) then ZodObject shape Strict
                          else ZodObject shape Passthrough)
                   in if minProperties a = None \<and> maxProperties a = None
                      then Inr baseSchema
                      else Inr (ZodEffects baseSchema
                             (PropertyCountRefinement (minProperties a) (maxProperties a))))))
      else if bsonType a = Some ''string'' then
        (let stringSchema =
               ZodString (addCheck SMin (minLength a) @ addCheck SMax (maxLength a)
                          @ addCheck SRegex (pattern a))
         in case enum_values a of
              Some vs \<Rightarrow> Inr (ZodEnum vs)
            | None \<Rightarrow> Inr stringSchema)
      else if bsonType a = Some ''bool'' then Inr ZodBoolean
      else if bsonType a = Some ''objectId'' then Inr zodObjectId
      else if bsonType a = Some ''date'' then Inr ZodDate
      else if bsonType a = Some ''uuid'' then Inr (ZodString [SUuid])
      else if bsonType a = Some ''binData'' then Inr (ZodEffects (ZodString []) Base64Transform)
      else if arrayIncludes [''number'', ''double'', ''int'', ''long'', ''decimal''] (bsonType a) then
        Inr (ZodNumber
               ((if arrayIncludes [''int'', ''long''] (bsonType a) then [NInt] else [])
                @ addCheck (\<lambda>v. NMin v True) (minimum a)
                @ addCheck (\<lambda>v. NMax v True) (maximum a)
                @ addCheck NMultipleOf (multipleOf a)))
      else Inl (Error (''Unsupported BSON type: '' @ showBsonType (bsonType a))))"
| "mongoSchemaToZod_map [] = Inr []"
| "mongoSchemaToZod_map (schema # rest) =
     (case mongoSchemaToZod schema of
        Inl e \<Rightarrow> Inl e
      | Inr z \<Rightarrow>
          (case mongoSchemaToZod_map rest of
             Inl e \<Rightarrow> Inl e
           | Inr zs \<Rightarrow> Inr (z # zs)))"
| "mongoSchemaToZod_items None = Inl TypeError"
| "mongoSchemaToZod_items (Some (Single item)) = mongoSchemaToZod item"
| "mongoSchemaToZod_items (Some (Multiple [item])) = mongoSchemaToZod item"
| "mongoSchemaToZod_items (Some (Multiple its)) =
     (case mongoSchemaToZod_map its of
        Inl e \<Rightarrow> Inl e
      | Inr zs \<Rightarrow> Inr (ZodUnion zs))"
| "mongoSchemaToZod_entries req [] shape = Inr shape"
| "mongoSchemaToZod_entries req ((key, v) # entries) shape =
     (case mongoSchemaToZod v of
        Inl e \<Rightarrow> Inl e
      | Inr fieldSchema \<Rightarrow>
          mongoSchemaToZod_entries req entries
            (setProperty shape key
               (if key \<in> set req then fieldSchema else ZodOptional fieldSchema)))"
  by pat_completeness auto

termination
  by (relation "measure (\<lambda>x. case x of
          Inl (Inl m) \<Rightarrow> size m
        | Inl (Inr ms) \<Rightarrow> size_list size ms
        | Inr (Inl its) \<Rightarrow> size_option (size_items_of size) its
        | Inr (Inr (req, entries, shape)) \<Rightarrow> size_list (size_prod (\<lambda>k. 0) size) entries)")
     auto

subsection \<open>What the attached callbacks compute\<close>

text \<open>
  The refinement on an array is \<^verbatim>\<open>(items) => new Set(items).size === items.length\<close>.
  A \<^verbatim>\<open>Set\<close> holds each value once under \<^verbatim>\<open>SameValueZero\<close>, which is equality of
  \<open>jsval\<close>; its size is the number of different values.
\<close>

definition uniqueItemsRefinement :: "jsval list \<Rightarrow> bool" where
  "uniqueItemsRefinement items = (card (set items) = length items)"

text \<open>
  \<^verbatim>\<open>validateProperties\<close> counts \<^verbatim>\<open>Object.keys(obj)\<close>; the callback given to
  \<^verbatim>\<open>superRefine\<close> adds an issue, so that the data is rejected, when it returns false.
\<close>

definition validateProperties ::
    "jsnumber option \<Rightarrow> jsnumber option \<Rightarrow> (string \<times> jsval) list \<Rightarrow> bool" where
  "validateProperties minP maxP obj =
     (let count = length (map fst obj);
          minOk = (case minP of None \<Rightarrow> True | Some m \<Rightarrow> real count \<ge> m);
          maxOk = (case maxP of None \<Rightarrow> True | Some m \<Rightarrow> real count \<le> m)
      in minOk \<and> maxOk)"

text \<open>
  \<open>refinementRejects eff v\<close>: the callback of \<open>eff\<close>, called with the value \<open>v\<close>, reports a
  failure.  Zod calls the callback with the output of the wrapped schema, not with the
  caller's data: for an array of objects the output is a new array whose elements are new
  objects, one for each element parsed, so \<open>v\<close> stands for that output.  The wrapped schema
  of the first refinement yields arrays only and that of the second objects only, and the
  transform is no check; so the last equation is about values that no callback is called
  with.
\<close>

fun refinementRejects :: "effect \<Rightarrow> jsobj \<Rightarrow> bool" where
  "refinementRejects UniqueItemsRefinement (JArray items) = (\<not> uniqueItemsRefinement items)"
| "refinementRejects (PropertyCountRefinement minP maxP) (JObject obj) =
     (\<not> validateProperties minP maxP obj)"
| "refinementRejects eff v = False"

subsection \<open>\<^verbatim>\<open>zodToBson\<close>: the older copy of the forward converter\<close>

text \<open>
  The older copy unwraps a nullable node without a trace, has no case for
  \<^verbatim>\<open>ZodUndefined\<close>, \<^verbatim>\<open>ZodUnion\<close>, \<^verbatim>\<open>ZodRecord\<close> and \<^verbatim>\<open>ZodNativeEnum\<close>, and turns a
  number into one descriptor of kind \<^verbatim>\<open>int\<close> or \<^verbatim>\<open>double\<close>.  Its \<^verbatim>\<open>switch\<close> over the
  checks of a number has the cases \<^verbatim>\<open>min\<close>, \<^verbatim>\<open>max\<close> and \<^verbatim>\<open>multipleOf\<close>.
\<close>

fun applyNumberCheck_single :: "attrs \<Rightarrow> numberCheck \<Rightarrow> attrs" where
  "applyNumberCheck_single numberSchema (NMin v inclusive) = numberSchema \<lparr> minimum := Some v \<rparr>"
| "applyNumberCheck_single numberSchema (NMax v inclusive) = numberSchema \<lparr> maximum := Some v \<rparr>"
| "applyNumberCheck_single numberSchema (NMultipleOf v) = numberSchema \<lparr> multipleOf := Some v \<rparr>"
| "applyNumberCheck_single numberSchema other = numberSchema"

fun zodToBson :: "zod \<Rightarrow> error + mongo"
  and zodToBson_shape ::
    "(string \<times> zod) list \<Rightarrow> (string \<times> mongo) list \<Rightarrow> string list
      \<Rightarrow> error + ((string \<times> mongo) list \<times> string list)"
where
  "zodToBson (ZodOptional inner) = zodToBson inner"
| "zodToBson (ZodNullable inner) = zodToBson inner"
| "zodToBson (ZodObject shape uk) =
     (case zodToBson_shape shape [] [] of
        Inl e \<Rightarrow> Inl e
      | Inr (props, req) \<Rightarrow>
          Inr (Node ((kind ''object'') \<lparr> required := (if req \<noteq> [] then Some req else None) \<rparr>)
                 None (Some props) None))"
| "zodToBson (ZodArray element minLen maxLen) =
     (case zodToBson element of
        Inl e \<Rightarrow> Inl e
      | Inr itemSchema \<Rightarrow>
          Inr (Node ((kind ''array'') \<lparr> minItems := minLen, maxItems := maxLen \<rparr>)
                 (Some (Single itemSchema)) None None))"
| "zodToBson (ZodString checks) =
     (if SRegex objectIdPattern \<in> set checks then Inr (leaf (kind ''objectId''))
      else Inr (leaf (foldl applyStringCheck (kind ''string'') checks)))"
| "zodToBson (ZodNumber checks) =
     (let isInt = (NInt \<in> set checks);
          numberSchema =
            (if isInt then (kind ''double'') \<lparr> bsonType := Some ''int'' \<rparr> else kind ''double'')
      in Inr (leaf (foldl applyNumberCheck_single numberSchema checks)))"
| "zodToBson ZodBoolean = Inr (leaf (kind ''bool''))"
| "zodToBson ZodDate = Inr (leaf (kind ''date''))"
| "zodToBson (ZodEnum values) =
     Inr (leaf ((kind ''string'') \<lparr> enum_values := Some values \<rparr>))"
| "zodToBson ZodAny = Inr emptySchema"
| "zodToBson other = Inl (Error (''Unsupported Zod type: '' @ className other))"
| "zodToBson_shape [] props req = Inr (props, req)"
| "zodToBson_shape ((key, v) # entries) props req =
     (case zodToBson v of
        Inl e \<Rightarrow> Inl e
      | Inr d \<Rightarrow>
          zodToBson_shape entries (setProperty props key d)
            (if \<not> isOptional v then req @ [key] else req))"

subsection \<open>Notions of the specification\<close>

text \<open>
  The specification speaks of the equality of two values by their contents.  On the heap
  \<open>h\<close> two references are equal in this sense when they hold objects with the same keys
  and equal values, or arrays of equal elements; the first argument bounds the depth to
  which references are followed, below it the addresses are compared.
\<close>

fun structurallyEqual :: "nat \<Rightarrow> heap \<Rightarrow> jsval \<Rightarrow> jsval \<Rightarrow> bool" where
  "structurallyEqual (Suc n) h (JRef p) (JRef q) =
     (case (h p, h q) of
        (Some (JObject fs), Some (JObject gs)) \<Rightarrow>
           map fst fs = map fst gs
           \<and> list_all2 (structurallyEqual n h) (map snd fs) (map snd gs)
      | (Some (JArray xs), Some (JArray ys)) \<Rightarrow> list_all2 (structurallyEqual n h) xs ys
      | other \<Rightarrow> p = q)"
| "structurallyEqual n h v w = (v = w)"

text \<open>
  A constraint of a string schema appears in a descriptor when the key it is translated to
  holds its value.
\<close>

fun constraintAppears :: "stringCheck \<Rightarrow> attrs \<Rightarrow> bool" where
  "constraintAppears (SMin v) a = (minLength a = Some v)"
| "constraintAppears (SMax v) a = (maxLength a = Some v)"
| "constraintAppears (SRegex source) a = (pattern a = Some source)"
| "constraintAppears SEmail a = (pattern a = Some emailPattern)"
| "constraintAppears other a = True"

text \<open>The values that the checks of a string schema give to each of the three keys, in the
  order of the checks, and the last of them.\<close>

fun minLengthOf :: "stringCheck \<Rightarrow> jsnumber list" where
  "minLengthOf (SMin v) = [v]"
| "minLengthOf other = []"

fun maxLengthOf :: "stringCheck \<Rightarrow> jsnumber list" where
  "maxLengthOf (SMax v) = [v]"
| "maxLengthOf other = []"

fun patternOf :: "stringCheck \<Rightarrow> string list" where
  "patternOf (SRegex source) = [source]"
| "patternOf SEmail = [emailPattern]"
| "patternOf other = []"

definition lastOf :: "'a list \<Rightarrow> 'a option" where
  "lastOf xs = (if xs = [] then None else Some (last xs))"

text \<open>The names that a descriptor lists under \<^verbatim>\<open>required\<close> (none when the key is
  absent).\<close>

fun requiredOf :: "mongo \<Rightarrow> string list" where
  "requiredOf (Node a its props addl) = (case required a of None \<Rightarrow> [] | Some r \<Rightarrow> r)"
| "requiredOf (OneOf oneOf) = []"

text \<open>The kinds that \<^verbatim>\<open>mongoSchemaToZod\<close> compares \<^verbatim>\<open>bsonType\<close> with, in its order.\<close>

definition mappedKinds :: "string list" where
  "mappedKinds = [''array'', ''object'', ''string'', ''bool'', ''objectId'', ''date'', ''uuid'',
     ''binData'', ''number'', ''double'', ''int'', ''long'', ''decimal'']"

text \<open>A heap with two objects at different addresses, each \<^verbatim>\<open>{ a: 1 }\<close>.\<close>

definition twoEqualObjects :: heap where
  "twoEqualObjects =
     (\<lambda>p. if p = 0 \<or> p = 1 then Some (JObject [(''a'', JNumber 1)]) else None)"

section \<open>Properties\<close>

lemmas descriptor_defs = leaf_def kind_def noAttrs_def emptySchema_def

subsection \<open>The loop over the fields of an object\<close>

lemma zodToBsonSchema_shape_required:
  "zodToBsonSchema_shape entries props req = Inr (props', req')
   \<Longrightarrow> req' = req @ map fst (filter (\<lambda>(k, v). \<not> isOptional v) entries)"
proof (induction entries arbitrary: props req)
  case Nil
  then show ?case by simp
next
  case (Cons entry entries)
  obtain key v where entry: "entry = (key, v)" by (cases entry)
  from Cons.prems obtain d where
    rest: "zodToBsonSchema_shape entries (setProperty props key d)
             (if \<not> isOptional v then req @ [key] else req) = Inr (props', req')"
    by (auto simp: entry split: sum.splits)
  from Cons.IH [OF rest] show ?case by (simp add: entry)
qed

subsection \<open>Object identifiers\<close>

text \<open>
  Claim C1.  A string schema whose checks are the identifier pattern and nothing else is
  converted to the bare descriptor \<^verbatim>\<open>{ bsonType: 'objectId' }\<close>, which has no length and no
  pattern key; \<^verbatim>\<open>mongoSchemaToZod\<close> turns that descriptor into the string schema whose one
  check is this pattern, which is not the unconstrained string schema.
\<close>

theorem objectId_round_trip:
  "set checks = {SRegex objectIdPattern} \<Longrightarrow>
   zodToBsonSchema (ZodString checks) = Inr (leaf (kind ''objectId''))
   \<and> mongoSchemaToZod (leaf (kind ''objectId'')) = Inr (ZodString [SRegex objectIdPattern])
   \<and> ZodString [SRegex objectIdPattern] \<noteq> ZodString []"
  by (simp add: descriptor_defs zodObjectId_def)

theorem objectId_round_trip_witness:
  "set [SRegex objectIdPattern] = {SRegex objectIdPattern}
   \<and> zodToBsonSchema (ZodString [SRegex objectIdPattern]) = Inr (leaf (kind ''objectId''))
   \<and> mongoSchemaToZod (leaf (kind ''objectId''))
       = Inr (ZodString [SRegex ''^[0-9a-fA-F]{24}$''])"
  using objectId_round_trip [of "[SRegex objectIdPattern]"]
  by (simp add: objectIdPattern_def)

subsection \<open>Required fields of an object\<close>

text \<open>
  Claim C6.  When \<^verbatim>\<open>zodToBsonSchema\<close> returns a descriptor for an object schema, the
  \<^verbatim>\<open>required\<close> list of the descriptor is the list of the names of the fields, in order,
  whose schema is not an instance of \<^verbatim>\<open>ZodOptional\<close>; the test looks at the field's own
  schema, before it is converted.  So a field of the shape is listed if and only if it is
  not an optional wrapper, and a field wrapped in \<^verbatim>\<open>ZodNullable\<close> is listed.
\<close>

theorem object_required_iff_not_optional:
  assumes "zodToBsonSchema (ZodObject shape uk) = Inr d"
  shows "requiredOf d = map fst (filter (\<lambda>(k, v). \<not> isOptional v) shape)
     \<and> (distinct (map fst shape) \<longrightarrow>
          (\<forall>(k, v) \<in> set shape. k \<in> set (requiredOf d) \<longleftrightarrow> \<not> isOptional v))"
proof -
  from assms obtain props req where
    sh: "zodToBsonSchema_shape shape [] [] = Inr (props, req)" and
    d: "d = Node ((kind ''object'') \<lparr> required := (if req \<noteq> [] then Some req else None) \<rparr>)
                 None (Some props) None"
    by (auto split: sum.splits)
  from zodToBsonSchema_shape_required [OF sh]
  have req: "req = map fst (filter (\<lambda>(k, v). \<not> isOptional v) shape)" by simp
  have r: "requiredOf d = req" by (simp add: d)
  have "k \<in> set req \<longleftrightarrow> \<not> isOptional v"
    if "distinct (map fst shape)" "(k, v) \<in> set shape" for k v
  proof
    assume "k \<in> set req"
    then obtain v' where "(k, v') \<in> set shape" "\<not> isOptional v'"
      by (auto simp: req)
    with that have "v' = v" by (meson eq_key_imp_eq_value)
    with \<open>\<not> isOptional v'\<close> show "\<not> isOptional v" by simp
  next
    assume "\<not> isOptional v"
    with that show "k \<in> set req" by (force simp: req)
  qed
  with r req show ?thesis by auto
qed

theorem object_required_iff_not_optional_witness:
  "zodToBsonSchema
      (ZodObject [(''a'', ZodString []), (''b'', ZodOptional (ZodString [])),
                  (''c'', ZodNullable (ZodString []))] Strip)
     = Inr (Node ((kind ''object'') \<lparr> required := Some [''a'', ''c''] \<rparr>) None
              (Some [(''a'', leaf (kind ''string'')), (''b'', leaf (kind ''string'')),
                     (''c'', OneOf [leaf (kind ''null''), leaf (kind ''string'')])]) None)
   \<and> distinct (map fst [(''a'', ZodString []), (''b'', ZodOptional (ZodString [])),
                  (''c'', ZodNullable (ZodString []))])
   \<and> (''a'' \<in> set [''a'', ''c''] \<longleftrightarrow> \<not> isOptional (ZodString []))
   \<and> (''b'' \<in> set [''a'', ''c''] \<longleftrightarrow> \<not> isOptional (ZodOptional (ZodString [])))
   \<and> (''c'' \<in> set [''a'', ''c''] \<longleftrightarrow> \<not> isOptional (ZodNullable (ZodString [])))"
proof -
  have h: "zodToBsonSchema
      (ZodObject [(''a'', ZodString []), (''b'', ZodOptional (ZodString [])),
                  (''c'', ZodNullable (ZodString []))] Strip)
     = Inr (Node ((kind ''object'') \<lparr> required := Some [''a'', ''c''] \<rparr>) None
              (Some [(''a'', leaf (kind ''string'')), (''b'', leaf (kind ''string'')),
                     (''c'', OneOf [leaf (kind ''null''), leaf (kind ''string'')])]) None)"
    by (simp add: objectIdPattern_def)
  from object_required_iff_not_optional [OF h] h show ?thesis by simp
qed

text \<open>The example of the specification: the object \<^verbatim>\<open>{ a: string, b: optional(string) }\<close>
  has the \<^verbatim>\<open>required\<close> list \<^verbatim>\<open>["a"]\<close>.\<close>

lemma object_required_example:
  "zodToBsonSchema (ZodObject [(''a'', ZodString []), (''b'', ZodOptional (ZodString []))] Strip)
     = Inr (Node ((kind ''object'') \<lparr> required := Some [''a''] \<rparr>) None
              (Some [(''a'', leaf (kind ''string'')), (''b'', leaf (kind ''string''))]) None)"
  by (simp add: objectIdPattern_def)

subsection \<open>The validator\<close>

text \<open>
  Claim C8.  When \<^verbatim>\<open>zodToBsonSchema\<close> returns a descriptor, \<^verbatim>\<open>createMongoValidator\<close>
  returns the object whose only entry has the key \<^verbatim>\<open>$jsonSchema\<close> and that descriptor as
  its value; and \<^verbatim>\<open>createMongoValidator\<close> fails with an error exactly when
  \<^verbatim>\<open>zodToBsonSchema\<close> fails with that error.
\<close>

theorem createMongoValidator_single_key:
  "(zodToBsonSchema z = Inr d \<longrightarrow> createMongoValidator z = Inr [(''$jsonSchema'', d)])
   \<and> (createMongoValidator z = Inl e \<longleftrightarrow> zodToBsonSchema z = Inl e)"
  by (auto simp: createMongoValidator_def split: sum.splits)

theorem createMongoValidator_single_key_witness:
  "zodToBsonSchema ZodBoolean = Inr (leaf (kind ''bool''))
   \<and> createMongoValidator ZodBoolean = Inr [(''$jsonSchema'', leaf (kind ''bool''))]
   \<and> zodToBsonSchema (ZodOther ''ZodTuple'') = Inl (Error ''Unsupported Zod type: ZodTuple'')
   \<and> createMongoValidator (ZodOther ''ZodTuple'')
       = Inl (Error ''Unsupported Zod type: ZodTuple'')"
  using createMongoValidator_single_key [of ZodBoolean "leaf (kind ''bool'')"]
        createMongoValidator_single_key
          [of "ZodOther ''ZodTuple''" _ "Error ''Unsupported Zod type: ZodTuple''"]
  by simp

subsection \<open>Kinds without a rule\<close>

text \<open>
  Claim C9.  A descriptor that is not a \<^verbatim>\<open>oneOf\<close> node and whose \<^verbatim>\<open>bsonType\<close> is none of
  the kinds that \<^verbatim>\<open>mongoSchemaToZod\<close> tests for makes the conversion fail with the error
  whose message ends in that kind; no schema is returned.
\<close>

theorem unsupported_bsonType_error:
  "bsonType a = Some k \<Longrightarrow> k \<notin> set mappedKinds \<Longrightarrow>
   mongoSchemaToZod (Node a its props addl) = Inl (Error (''Unsupported BSON type: '' @ k))"
  by (simp add: mappedKinds_def arrayIncludes_def showBsonType_def)

theorem unsupported_bsonType_error_witness:
  "bsonType (kind ''timestamp'') = Some ''timestamp'' \<and> ''timestamp'' \<notin> set mappedKinds
   \<and> mongoSchemaToZod (leaf (kind ''timestamp''))
       = Inl (Error ''Unsupported BSON type: timestamp'')
   \<and> mongoSchemaToZod (leaf (kind ''regex'')) = Inl (Error ''Unsupported BSON type: regex'')
   \<and> mongoSchemaToZod (leaf (kind ''mixed'')) = Inl (Error ''Unsupported BSON type: mixed'')
   \<and> mongoSchemaToZod (leaf (kind ''null'')) = Inl (Error ''Unsupported BSON type: null'')"
  using unsupported_bsonType_error [of "kind ''timestamp''" "''timestamp''" None None None]
        unsupported_bsonType_error [of "kind ''regex''" "''regex''" None None None]
        unsupported_bsonType_error [of "kind ''mixed''" "''mixed''" None None None]
        unsupported_bsonType_error [of "kind ''null''" "''null''" None None None]
  by (simp add: mappedKinds_def leaf_def kind_def noAttrs_def)

subsection \<open>Nullable schemas do not come back\<close>

text \<open>
  Claim C10.  When \<^verbatim>\<open>zodToBsonSchema\<close> returns a descriptor for a nullable schema, the
  descriptor is the \<^verbatim>\<open>oneOf\<close> node of \<^verbatim>\<open>{ bsonType: 'null' }\<close> and the descriptor of the
  wrapped schema, and \<^verbatim>\<open>mongoSchemaToZod\<close> fails on it with the error for the kind
  \<^verbatim>\<open>null\<close>.
\<close>

theorem nullable_does_not_round_trip:
  "zodToBsonSchema (ZodNullable inner) = Inr out \<Longrightarrow>
   (\<exists>d. zodToBsonSchema inner = Inr d \<and> out = OneOf [leaf (kind ''null''), d])
   \<and> mongoSchemaToZod out = Inl (Error ''Unsupported BSON type: null'')"
  by (auto simp: descriptor_defs arrayIncludes_def showBsonType_def split: sum.splits)

theorem nullable_does_not_round_trip_witness:
  "zodToBsonSchema (ZodNullable (ZodString []))
     = Inr (OneOf [leaf (kind ''null''), leaf (kind ''string'')])
   \<and> mongoSchemaToZod (OneOf [leaf (kind ''null''), leaf (kind ''string'')])
       = Inl (Error ''Unsupported BSON type: null'')"
proof -
  have h: "zodToBsonSchema (ZodNullable (ZodString []))
     = Inr (OneOf [leaf (kind ''null''), leaf (kind ''string'')])"
    by (simp add: objectIdPattern_def)
  from nullable_does_not_round_trip [OF h] h show ?thesis by simp
qed

subsection \<open>The bound on the number of properties\<close>

text \<open>
  Claim C7.  When \<^verbatim>\<open>mongoSchemaToZod\<close> returns a schema for a descriptor of kind
  \<^verbatim>\<open>object\<close>, the schema is wrapped in a refinement if and only if \<^verbatim>\<open>minProperties\<close> or
  \<^verbatim>\<open>maxProperties\<close> is present; the refinement then holds exactly these two bounds, and it
  rejects an object exactly when the number of its keys is below a present
  \<^verbatim>\<open>minProperties\<close> or above a present \<^verbatim>\<open>maxProperties\<close>.  With neither bound the plain
  object schema is returned.
\<close>

theorem property_count_refinement:
  assumes "bsonType a = Some ''object''"
    and "mongoSchemaToZod (Node a its props addl) = Inr z"
  shows "((\<exists>base eff. z = ZodEffects base eff)
            \<longleftrightarrow> (minProperties a \<noteq> None \<or> maxProperties a \<noteq> None))
    \<and> ((minProperties a \<noteq> None \<or> maxProperties a \<noteq> None) \<longrightarrow>
         (\<exists>shape uk. z = ZodEffects (ZodObject shape uk)
                        (PropertyCountRefinement (minProperties a) (maxProperties a))))
    \<and> (minProperties a = None \<and> maxProperties a = None \<longrightarrow> (\<exists>shape uk. z = ZodObject shape uk))
    \<and> (\<forall>obj. refinementRejects
                (PropertyCountRefinement (minProperties a) (maxProperties a)) (JObject obj)
          \<longleftrightarrow> (\<exists>m. minProperties a = Some m \<and> real (length obj) < m)
              \<or> (\<exists>m. maxProperties a = Some m \<and> m < real (length obj)))"
proof -
  have rejects: "refinementRejects (PropertyCountRefinement mn mx) (JObject obj)
          \<longleftrightarrow> (\<exists>m. mn = Some m \<and> real (length obj) < m)
              \<or> (\<exists>m. mx = Some m \<and> m < real (length obj))" for mn mx obj
    by (auto simp: validateProperties_def Let_def split: option.splits)
  from assms obtain shape uk where
    z: "z = (if minProperties a = None \<and> maxProperties a = None
             then ZodObject shape uk
             else ZodEffects (ZodObject shape uk)
                    (PropertyCountRefinement (minProperties a) (maxProperties a)))"
    by (auto split: option.splits sum.splits if_splits simp: Let_def)
  from z have attached: "(\<exists>base eff. z = ZodEffects base eff)
      \<longleftrightarrow> (minProperties a \<noteq> None \<or> maxProperties a \<noteq> None)"
    by auto
  from z have bounds: "(minProperties a \<noteq> None \<or> maxProperties a \<noteq> None) \<longrightarrow>
         (\<exists>shape uk. z = ZodEffects (ZodObject shape uk)
                        (PropertyCountRefinement (minProperties a) (maxProperties a)))"
    by auto
  from z have plain: "minProperties a = None \<and> maxProperties a = None
      \<longrightarrow> (\<exists>shape uk. z = ZodObject shape uk)"
    by auto
  from attached bounds plain rejects show ?thesis by blast
qed

theorem property_count_refinement_witness:
  "bsonType ((kind ''object'') \<lparr> minProperties := Some 1, maxProperties := Some 2 \<rparr>)
     = Some ''object''
   \<and> mongoSchemaToZod
        (Node ((kind ''object'') \<lparr> minProperties := Some 1, maxProperties := Some 2 \<rparr>)
           None (Some [(''a'', leaf (kind ''string''))]) None)
     = Inr (ZodEffects (ZodObject [(''a'', ZodOptional (ZodString []))] Passthrough)
              (PropertyCountRefinement (Some 1) (Some 2)))
   \<and> refinementRejects (PropertyCountRefinement (Some 1) (Some 2)) (JObject [])
   \<and> \<not> refinementRejects (PropertyCountRefinement (Some 1) (Some 2))
         (JObject [(''a'', JString ''x'')])"
proof -
  have k: "bsonType ((kind ''object'') \<lparr> minProperties := Some 1, maxProperties := Some 2 \<rparr>)
     = Some ''object''"
    by (simp add: kind_def)
  have h: "mongoSchemaToZod
        (Node ((kind ''object'') \<lparr> minProperties := Some 1, maxProperties := Some 2 \<rparr>)
           None (Some [(''a'', leaf (kind ''string''))]) None)
     = Inr (ZodEffects (ZodObject [(''a'', ZodOptional (ZodString []))] Passthrough)
              (PropertyCountRefinement (Some 1) (Some 2)))"
    by (simp add: descriptor_defs addCheck_def)
  from property_count_refinement [OF k h] k h show ?thesis
    by (simp add: kind_def)
qed

text \<open>With neither bound the object schema comes back without a refinement.\<close>

lemma property_count_absent_example:
  "mongoSchemaToZod (Node (kind ''object'') None (Some [(''a'', leaf (kind ''string''))]) None)
     = Inr (ZodObject [(''a'', ZodOptional (ZodString []))] Passthrough)"
  by (simp add: descriptor_defs addCheck_def)

subsection \<open>Constraints of a string\<close>

lemma foldl_applyStringCheck:
  "foldl applyStringCheck s checks =
     s \<lparr> minLength := (case lastOf (concat (map minLengthOf checks)) of
                         None \<Rightarrow> minLength s | Some v \<Rightarrow> Some v),
         maxLength := (case lastOf (concat (map maxLengthOf checks)) of
                         None \<Rightarrow> maxLength s | Some v \<Rightarrow> Some v),
         pattern := (case lastOf (concat (map patternOf checks)) of
                         None \<Rightarrow> pattern s | Some v \<Rightarrow> Some v) \<rparr>"
proof (induction checks rule: rev_induct)
  case Nil
  then show ?case by (simp add: lastOf_def)
next
  case (snoc c checks)
  then show ?case by (cases c) (simp_all add: lastOf_def)
qed

text \<open>A string schema one of whose checks is the identifier pattern is converted to the
  bare descriptor of kind \<^verbatim>\<open>objectId\<close>, whatever its other checks are
  (\<^verbatim>\<open>checks.some\<close>).\<close>

lemma identifier_pattern_among_checks:
  "SRegex objectIdPattern \<in> set checks
   \<Longrightarrow> zodToBsonSchema (ZodString checks) = Inr (leaf (kind ''objectId''))"
  by simp

text \<open>
  Claim C4, as the specification states it, fails in two ways.  The explicit pattern and
  the email marker are both written to the key \<^verbatim>\<open>pattern\<close>, so the later check replaces
  the earlier one: for \<^verbatim>\<open>z.string().regex(/^a/).email()\<close> the descriptor holds the email
  pattern and the pattern \<^verbatim>\<open>^a\<close> does not appear in it.  And a schema that has the
  identifier pattern together with another constraint, which is not the special case of
  the identifier pattern alone, is not converted to a string descriptor at all: for
  \<^verbatim>\<open>z.string().min(24).regex(new RegExp(objectIdPattern))\<close> the descriptor is the bare
  \<^verbatim>\<open>objectId\<close>, in which the minimum length does not appear.
\<close>

theorem string_constraints_lost_counterexample:
  "set [SRegex ''^a'', SEmail] \<noteq> {SRegex objectIdPattern}
   \<and> zodToBsonSchema (ZodString [SRegex ''^a'', SEmail])
       = Inr (leaf ((kind ''string'') \<lparr> pattern := Some emailPattern \<rparr>))
   \<and> \<not> constraintAppears (SRegex ''^a'') ((kind ''string'') \<lparr> pattern := Some emailPattern \<rparr>)
   \<and> set [SMin 24, SRegex objectIdPattern] \<noteq> {SRegex objectIdPattern}
   \<and> zodToBsonSchema (ZodString [SMin 24, SRegex objectIdPattern])
       = Inr (leaf (kind ''objectId''))
   \<and> \<not> constraintAppears (SMin 24) (kind ''objectId'')"
  by (simp add: objectIdPattern_def emailPattern_def kind_def noAttrs_def)

text \<open>
  Claim C4, amended.  Take a string schema that is not the special case, that is, whose
  checks are not the identifier pattern alone.  If one of its checks is the identifier
  pattern, \<^verbatim>\<open>zodToBsonSchema\<close> returns early with the bare descriptor of kind
  \<^verbatim>\<open>objectId\<close> and none of the other constraints appears.  Otherwise it returns the
  descriptor of kind \<^verbatim>\<open>string\<close> in which \<^verbatim>\<open>minLength\<close> is the value of the last
  minimum-length check, \<^verbatim>\<open>maxLength\<close> the value of the last maximum-length check, and
  \<^verbatim>\<open>pattern\<close> the pattern of the last check that is an explicit pattern or the email
  marker (the marker standing for the fixed email pattern); a key without such a check is
  absent.  The three keys are filled independently of each other, so constraints on
  different keys all appear; the explicit pattern and the email marker share one key, and
  of the two only the later appears.
\<close>

theorem string_constraints_translation:
  "set checks \<noteq> {SRegex objectIdPattern} \<Longrightarrow>
   zodToBsonSchema (ZodString checks) =
     (if SRegex objectIdPattern \<in> set checks then Inr (leaf (kind ''objectId''))
      else Inr (leaf ((kind ''string'')
             \<lparr> minLength := lastOf (concat (map minLengthOf checks)),
               maxLength := lastOf (concat (map maxLengthOf checks)),
               pattern := lastOf (concat (map patternOf checks)) \<rparr>)))"
  by (simp add: foldl_applyStringCheck kind_def noAttrs_def split: option.splits)

theorem string_constraints_translation_witness:
  "set [SMin 2, SRegex ''^a'', SMax 5, SEmail, SMin 3] \<noteq> {SRegex objectIdPattern}
   \<and> zodToBsonSchema (ZodString [SMin 2, SRegex ''^a'', SMax 5, SEmail, SMin 3]) =
     Inr (leaf ((kind ''string'')
            \<lparr> minLength := Some 3, maxLength := Some 5, pattern := Some emailPattern \<rparr>))
   \<and> set [SMin 24, SRegex objectIdPattern] \<noteq> {SRegex objectIdPattern}
   \<and> zodToBsonSchema (ZodString [SMin 24, SRegex objectIdPattern])
       = Inr (leaf (kind ''objectId''))
   \<and> set ([] :: stringCheck list) \<noteq> {SRegex objectIdPattern}
   \<and> zodToBsonSchema (ZodString []) = Inr (leaf (kind ''string''))"
  using string_constraints_translation [of "[SMin 2, SRegex ''^a'', SMax 5, SEmail, SMin 3]"]
        string_constraints_translation [of "[SMin 24, SRegex objectIdPattern]"]
        string_constraints_translation [of "[]"]
  by (simp add: objectIdPattern_def lastOf_def)

subsection \<open>Unique items\<close>

lemma uniqueItemsRefinement_distinct: "uniqueItemsRefinement items \<longleftrightarrow> distinct items"
  unfolding uniqueItemsRefinement_def by (metis card_distinct distinct_card)

text \<open>On strings the refinement compares by value.\<close>

lemma uniqueItems_on_strings:
  "\<not> refinementRejects UniqueItemsRefinement (JArray [JString ''x'', JString ''y''])
   \<and> refinementRejects UniqueItemsRefinement (JArray [JString ''x'', JString ''x''])"
  by (simp add: uniqueItemsRefinement_distinct)

text \<open>
  Claim C2 does not hold of the code.  The descriptor
  \<^verbatim>\<open>{ bsonType: 'array', items: { bsonType: 'object', properties: { a: { bsonType: 'int' } } }, uniqueItems: true }\<close>
  is converted to an array schema with the refinement; the array of two different objects
  that are both \<^verbatim>\<open>{ a: 1 }\<close> (the output for any data of two such elements) has two
  structurally equal elements, and the refinement does not reject it, because the
  \<^verbatim>\<open>Set\<close> holds the two references as two values.
\<close>

theorem uniqueItems_accepts_equal_objects:
  "mongoSchemaToZod
      (Node ((kind ''array'') \<lparr> uniqueItems := Some True \<rparr>)
         (Some (Single (Node (kind ''object'') None (Some [(''a'', leaf (kind ''int''))]) None)))
         None None)
    = Inr (ZodEffects
             (ZodArray (ZodObject [(''a'', ZodOptional (ZodNumber [NInt]))] Passthrough) None None)
             UniqueItemsRefinement)
   \<and> structurallyEqual 1 twoEqualObjects (JRef 0) (JRef 1)
   \<and> \<not> refinementRejects UniqueItemsRefinement (JArray [JRef 0, JRef 1])"
  by (simp add: descriptor_defs arrayIncludes_def addCheck_def twoEqualObjects_def
        uniqueItemsRefinement_distinct)

subsection \<open>Numbers as alternatives\<close>

text \<open>Whatever the checks of a number schema are, no alternative of the newest copy has the
  key \<^verbatim>\<open>multipleOf\<close>.\<close>

lemma applyNumberCheck_multipleOf:
  "\<forall>t \<in> set ts. multipleOf t = None
   \<Longrightarrow> \<forall>t \<in> set (foldl applyNumberCheck ts checks). multipleOf t = None"
proof (induction checks arbitrary: ts)
  case Nil
  then show ?case by simp
next
  case (Cons c checks)
  have "\<forall>t \<in> set (applyNumberCheck ts c). multipleOf t = None"
    using Cons.prems by (cases c) auto
  from Cons.IH [OF this] show ?case by simp
qed

text \<open>
  Claim C3 does not hold of the code.  For the schema \<^verbatim>\<open>z.number().multipleOf(5)\<close> the
  newest copy returns the four alternatives \<^verbatim>\<open>int\<close>, \<^verbatim>\<open>long\<close>, \<^verbatim>\<open>double\<close> and
  \<^verbatim>\<open>decimal\<close> with no \<^verbatim>\<open>multipleOf\<close> key on any of them, whereas the older copy writes
  \<^verbatim>\<open>multipleOf: 5\<close> into its descriptor.
\<close>

theorem number_multipleOf_not_copied:
  "zodToBsonSchema (ZodNumber [NMultipleOf 5])
     = Inr (OneOf [leaf (kind ''int''), leaf (kind ''long''), leaf (kind ''double''),
                   leaf (kind ''decimal'')])
   \<and> zodToBson (ZodNumber [NMultipleOf 5])
     = Inr (leaf ((kind ''double'') \<lparr> multipleOf := Some 5 \<rparr>))"
  by (simp add: numbers_def)

text \<open>The parts of the claim that do hold, on an example: an integer check leaves the kinds
  \<^verbatim>\<open>int\<close> and \<^verbatim>\<open>long\<close>, and both carry the minimum and the maximum.\<close>

lemma number_alternatives_example:
  "zodToBsonSchema (ZodNumber [NMin 1 True, NInt, NMax 9 True])
     = Inr (OneOf [leaf ((kind ''int'') \<lparr> minimum := Some 1, maximum := Some 9 \<rparr>),
                   leaf ((kind ''long'') \<lparr> minimum := Some 1, maximum := Some 9 \<rparr>)])"
  by (simp add: numbers_def kind_def noAttrs_def)

subsection \<open>Alternatives with one member\<close>

text \<open>A \<^verbatim>\<open>oneOf\<close> node that is converted becomes a union, whatever the number of its
  members, and the options of the union are the schemas of the members, in order.\<close>

lemma mongoSchemaToZod_map_members:
  "mongoSchemaToZod_map ms = Inr zs \<Longrightarrow> map mongoSchemaToZod ms = map Inr zs"
proof (induction ms arbitrary: zs)
  case Nil
  then show ?case by simp
next
  case (Cons m ms)
  from Cons.prems obtain z zs' where
    "mongoSchemaToZod m = Inr z" "mongoSchemaToZod_map ms = Inr zs'" "zs = z # zs'"
    by (auto split: sum.splits)
  with Cons.IH show ?case by simp
qed

lemma oneOf_is_union:
  "mongoSchemaToZod (OneOf ms) = Inr z
   \<Longrightarrow> \<exists>zs. z = ZodUnion zs \<and> map mongoSchemaToZod ms = map Inr zs"
  by (auto split: sum.splits dest: mongoSchemaToZod_map_members)

text \<open>
  Claim C5 does not hold of the code.  For the descriptor
  \<^verbatim>\<open>{ oneOf: [{ bsonType: 'bool' }] }\<close> the conversion returns a union with one option, not
  the boolean schema itself; the branch for \<^verbatim>\<open>items\<close> of the same function does return
  the schema of the only member of a list of length one.
\<close>

theorem oneOf_single_member_is_wrapped:
  "mongoSchemaToZod (OneOf [leaf (kind ''bool'')]) = Inr (ZodUnion [ZodBoolean])
   \<and> mongoSchemaToZod (leaf (kind ''bool'')) = Inr ZodBoolean
   \<and> mongoSchemaToZod (Node (kind ''array'') (Some (Multiple [leaf (kind ''bool'')])) None None)
       = Inr (ZodArray ZodBoolean None None)"
  by (simp add: descriptor_defs)

end
